theory Spec2Isabelle
  imports Main "HOL-Library.Word"
begin

unbundle bit_operations_syntax

section \<open>Python values\<close>

text \<open>
  A Python \<open>str\<close> is a \<open>string\<close>: one \<open>char\<close> per code point, for code points
  below 256. The decoded body of an API response is a \<open>json\<close> value; Python's \<open>None\<close>
  is \<open>JNull\<close>, a \<open>dict\<close> is \<open>JObj\<close> with its items in order and distinct keys. JSON
  numbers are integers here (no floats).
\<close>

datatype json =
  JNull
| JBool bool
| JInt int
| JStr string
| JArr "json list"
| JObj "(string \<times> json) list"

datatype py_error = AttributeError | KeyError | TypeError

text \<open>Truth value of an object, as \<open>if not x\<close> tests it.\<close>

fun truthy :: "json \<Rightarrow> bool" where
  "truthy JNull = False"
| "truthy (JBool b) = b"
| "truthy (JInt i) = (i \<noteq> 0)"
| "truthy (JStr s) = (s \<noteq> [])"
| "truthy (JArr xs) = (xs \<noteq> [])"
| "truthy (JObj kvs) = (kvs \<noteq> [])"

text \<open>
  \<open>d.get(k, default)\<close>: only a \<open>dict\<close> has the method; on any other object the
  attribute lookup raises \<open>AttributeError\<close>.
\<close>

fun dict_get :: "json \<Rightarrow> string \<Rightarrow> json \<Rightarrow> py_error + json" where
  "dict_get (JObj kvs) k dflt = Inr (case map_of kvs k of Some v \<Rightarrow> v | None \<Rightarrow> dflt)"
| "dict_get _ k dflt = Inl AttributeError"

subsection \<open>Formatting a value into an f-string\<close>

definition sq :: char where "sq = CHR 0x27"
definition dq :: char where "dq = CHR 0x22"
definition bsl :: char where "bsl = CHR 0x5C"
definition nl :: char where "nl = CHR 0x0A"
definition tab :: char where "tab = CHR 0x09"
definition cr :: char where "cr = CHR 0x0D"

definition digit_char :: "nat \<Rightarrow> char" where
  "digit_char n = ''0123456789abcdef'' ! (n mod 16)"

fun dec_nat :: "nat \<Rightarrow> string" where
  "dec_nat n = (if n < 10 then [digit_char n] else dec_nat (n div 10) @ [digit_char (n mod 10)])"

declare dec_nat.simps [simp del]

definition dec_int :: "int \<Rightarrow> string" where
  "dec_int i = (if i < 0 then ''-'' @ dec_nat (nat (- i)) else dec_nat (nat i))"

definition printable :: "char \<Rightarrow> bool" where
  "printable c = (let n = (of_char c :: nat)
                  in (32 \<le> n \<and> n < 127) \<or> (161 \<le> n \<and> n \<noteq> 173))"

definition repr_char :: "char \<Rightarrow> char \<Rightarrow> string" where
  "repr_char q c =
     (if c = q \<or> c = bsl then [bsl, c]
      else if c = tab then [bsl, CHR ''t'']
      else if c = nl then [bsl, CHR ''n'']
      else if c = cr then [bsl, CHR ''r'']
      else if printable c then [c]
      else [bsl, CHR ''x'', digit_char (of_char c div 16), digit_char (of_char c mod 16)])"

definition repr_str :: "string \<Rightarrow> string" where
  "repr_str s =
     (let q = (if sq \<in> set s \<and> dq \<notin> set s then dq else sq)
      in [q] @ concat (map (repr_char q) s) @ [q])"

fun join :: "string \<Rightarrow> string list \<Rightarrow> string" where
  "join sep [] = []"
| "join sep [x] = x"
| "join sep (x # y # ys) = x @ sep @ join sep (y # ys)"

fun py_repr :: "json \<Rightarrow> string" where
  "py_repr JNull = ''None''"
| "py_repr (JBool b) = (if b then ''True'' else ''False'')"
| "py_repr (JInt i) = dec_int i"
| "py_repr (JStr s) = repr_str s"
| "py_repr (JArr xs) = ''['' @ join '', '' (map py_repr xs) @ '']''"
| "py_repr (JObj kvs) =
     ''{'' @ join '', '' (map (\<lambda>kv. repr_str (fst kv) @ '': '' @ py_repr (snd kv)) kvs) @ ''}''"

text \<open>\<open>f"{x}"\<close> is \<open>str(x)\<close>: a string as it is, anything else as its \<open>repr\<close>.\<close>

fun py_str :: "json \<Rightarrow> string" where
  "py_str (JStr s) = s"
| "py_str v = py_repr v"

subsection \<open>String methods\<close>

fun startswith :: "string \<Rightarrow> string \<Rightarrow> bool" where
  "startswith s [] = True"
| "startswith [] (p # ps) = False"
| "startswith (c # cs) (p # ps) = (c = p \<and> startswith cs ps)"

text \<open>\<open>s.replace(old, new)\<close> for a non-empty \<open>old\<close>: every occurrence, left to right.\<close>

function py_replace :: "string \<Rightarrow> string \<Rightarrow> string \<Rightarrow> string" where
  "py_replace old new [] = []"
| "py_replace old new (c # cs) =
     (if old \<noteq> [] \<and> startswith (c # cs) old
      then new @ py_replace old new (drop (length old) (c # cs))
      else c # py_replace old new cs)"
  by pat_completeness auto
termination
  by (relation "measure (\<lambda>(old, new, s). length s)") auto

text \<open>
  \<open>str.upper\<close> on ASCII text, as applied to a string of hexadecimal digits.
\<close>

definition ascii_upper :: "char \<Rightarrow> char" where
  "ascii_upper c = (let n = (of_char c :: nat)
                    in if 97 \<le> n \<and> n \<le> 122 then char_of (n - 32) else c)"

text \<open>
  Case mapping of one character below 256, for \<open>str.capitalize\<close>: the ASCII letters
  and the accented letters 0xC0..0xDE and 0xE0..0xFE (without the signs 0xD7 and 0xF7)
  differ by 32. Three lowercase characters have no capital below 256 and are left as
  they are here: the micro sign 0xB5 and y with diaeresis 0xFF, whose capitals are code
  points above 255, and sharp s 0xDF, which \<open>capitalize\<close> turns into the two
  characters \<open>Ss\<close>.
\<close>

definition upper_char :: "char \<Rightarrow> char" where
  "upper_char c = (let n = (of_char c :: nat)
                   in if (97 \<le> n \<and> n \<le> 122) \<or> (224 \<le> n \<and> n \<le> 254 \<and> n \<noteq> 247)
                      then char_of (n - 32) else c)"

definition lower_char :: "char \<Rightarrow> char" where
  "lower_char c = (let n = (of_char c :: nat)
                   in if (65 \<le> n \<and> n \<le> 90) \<or> (192 \<le> n \<and> n \<le> 222 \<and> n \<noteq> 215)
                      then char_of (n + 32) else c)"

fun capitalize :: "string \<Rightarrow> string" where
  "capitalize [] = []"
| "capitalize (c # cs) = upper_char c # map lower_char cs"

text \<open>
  \<open>str.isspace\<close> on one character below 256: tab to carriage return, the four
  separators 0x1c..0x1f, space, NEL and the no-break space.
\<close>

definition isspace :: "char \<Rightarrow> bool" where
  "isspace c = (let n = (of_char c :: nat)
                in (9 \<le> n \<and> n \<le> 13) \<or> (28 \<le> n \<and> n \<le> 32) \<or> n = 133 \<or> n = 160)"

definition lstrip :: "string \<Rightarrow> string" where
  "lstrip s = dropWhile isspace s"

definition rstrip :: "string \<Rightarrow> string" where
  "rstrip s = rev (dropWhile isspace (rev s))"

definition strip :: "string \<Rightarrow> string" where
  "strip s = rstrip (lstrip s)"

text \<open>\<open>s.split(sep)\<close> for a one-character separator: never an empty list.\<close>

fun split :: "char \<Rightarrow> string \<Rightarrow> string list" where
  "split sep [] = [[]]"
| "split sep (c # cs) =
     (if c = sep then [] # split sep cs
      else (case split sep cs of
              [] \<Rightarrow> [[c]]
            | w # ws \<Rightarrow> (c # w) # ws))"

text \<open>
  Iterating over a file opened in text mode: \<open>\r\n\<close> and a lone \<open>\r\<close> are read as
  \<open>\n\<close>, and every line keeps its \<open>\n\<close>; only the last line may lack one.
\<close>

fun text_lines_from :: "string \<Rightarrow> string \<Rightarrow> string list" where
  "text_lines_from acc [] = (if acc = [] then [] else [acc])"
| "text_lines_from acc (c # cs) =
     (if c = nl then (acc @ [nl]) # text_lines_from [] cs
      else if c = cr then
        (case cs of
           [] \<Rightarrow> [acc @ [nl]]
         | d # ds \<Rightarrow> if d = nl then (acc @ [nl]) # text_lines_from [] ds
                     else (acc @ [nl]) # text_lines_from [] cs)
      else text_lines_from (acc @ [c]) cs)"

definition text_lines :: "string \<Rightarrow> string list" where
  "text_lines s = text_lines_from [] s"

section \<open>The package registry\<close>

record AURPackage =
  name :: string
  slug :: string
  description :: string
  license :: string
  url :: string
  depends :: "string list"
  conflicts :: "string list"
  provides :: "string list"

definition git_url :: "AURPackage \<Rightarrow> string" where
  "git_url p = ''ssh://aur@aur.archlinux.org/'' @ name p @ ''.git''"

definition klit_bin :: AURPackage where
  "klit_bin = \<lparr>
     name = ''klit-bin'',
     slug = ''klit'',
     description = ''The successor to BaoBao. A modern, privacy-focused client for the e621 community. Built with user experience and data protection as top priorities.'',
     license = ''GPL3'',
     url = ''https://gitlab.com/Openlyst/klit'',
     depends = [''gtk3''],
     conflicts = [''klit''],
     provides = [''klit'']\<rparr>"

definition doudou_bin :: AURPackage where
  "doudou_bin = \<lparr>
     name = ''doudou-bin'',
     slug = ''doudou'',
     description = ''Stream your music with ease and style. Source: https://gitlab.com/Openlyst/doudou'',
     license = ''GPL3'',
     url = ''https://gitlab.com/Openlyst/doudou'',
     depends = [''gtk3'', ''libmpv.so'', ''mpv''],
     conflicts = [''doudou''],
     provides = [''doudou'']\<rparr>"

definition finar_bin :: AURPackage where
  "finar_bin = \<lparr>
     name = ''finar-bin'',
     slug = ''finar'',
     description = ''A beautiful, modern multi-platform Jellyfin client built with Flutter. Source: https://gitlab.com/Openlyst/finar'',
     license = ''AGPL3'',
     url = ''https://gitlab.com/Openlyst/finar'',
     depends = [''gtk3'', ''libmpv.so'', ''mpv''],
     conflicts = [''finar''],
     provides = [''finar'']\<rparr>"

text \<open>The dict \<open>AUR_PACKAGES\<close>, its items in insertion order.\<close>

definition AUR_PACKAGES :: "(string \<times> AURPackage) list" where
  "AUR_PACKAGES =
     [(''klit-bin'', klit_bin), (''doudou-bin'', doudou_bin), (''finar-bin'', finar_bin)]"

section \<open>Rendering the build recipe and the source-info summary\<close>

definition unlines :: "string list \<Rightarrow> string" where
  "unlines ls = concat (map (\<lambda>l. l @ [nl]) ls)"

text \<open>\<open>' '.join(f"'{dep}'" for dep in deps)\<close>\<close>

definition quoted_list :: "string list \<Rightarrow> string" where
  "quoted_list deps = join '' '' (map (\<lambda>dep. [sq] @ dep @ [sq]) deps)"

text \<open>The lines of the recipe up to \<open>options\<close>: the declared fields.\<close>

definition pkgbuild_fields :: "AURPackage \<Rightarrow> string \<Rightarrow> string \<Rightarrow> string \<Rightarrow> string list" where
  \<open>pkgbuild_fields package version download_url sha256 =
     [''# Maintainer: HttpAnimations <httpanimations@proton.me>'',
      ''# Auto-generated by OpenLyst AUR Updater'',
      [],
      ''pkgname='' @ name package,
      ''pkgver='' @ version,
      ''pkgrel=1'',
      ''pkgdesc="'' @ description package @ ''"'',
      ''arch=('' @ [sq] @ ''x86_64'' @ [sq] @ '')'',
      ''url="'' @ url package @ ''"'',
      ''license=('' @ [sq] @ license package @ [sq] @ '')'',
      ''depends=('' @ quoted_list (depends package) @ '')'',
      ''conflicts=('' @ quoted_list (conflicts package) @ '')'',
      ''provides=('' @ quoted_list (provides package) @ '')'',
      ''source=("${pkgname}-${pkgver}.zip::'' @ download_url @ ''")'',
      ''sha256sums=('' @ [sq] @ sha256 @ [sq] @ '')'',
      ''options=('' @ [sq] @ ''!strip'' @ [sq] @ '')'',
      []]\<close>

text \<open>
  The install procedure \<open>package()\<close>. The backslash at the end of the first
  \<open>install -Dm644\<close> line of the icon block continues the string literal in Python:
  backslash and line break are not part of the text, and the two source lines are one line.
\<close>

definition pkgbuild_install :: "string \<Rightarrow> string \<Rightarrow> string list" where
  \<open>pkgbuild_install app_name descr =
     [''package() {'',
      ''    cd "$srcdir"'',
      ''    '',
      ''    # Find the extracted directory (handles different naming patterns)'',
      ''    local extracted_dir'',
      ''    extracted_dir=$(find . -maxdepth 1 -type d -name "'' @ app_name @ ''*" | head -1)'',
      ''    '',
      ''    if [ -z "$extracted_dir" ]; then'',
      ''        # Fallback: try to find any directory that'' @ [sq] @ ''s not current/parent'',
      ''        extracted_dir=$(find . -maxdepth 1 -type d ! -name "." ! -name ".." | head -1)'',
      ''    fi'',
      ''    '',
      ''    if [ -z "$extracted_dir" ]; then'',
      ''        echo "Error: Could not find extracted directory"'',
      ''        return 1'',
      ''    fi'',
      ''    '',
      ''    # Install the application'',
      ''    install -dm755 "$pkgdir/opt/'' @ app_name @ ''"'',
      ''    cp -r "$extracted_dir"/* "$pkgdir/opt/'' @ app_name @ ''/"'',
      ''    '',
      ''    # Make the main executable'',
      ''    chmod +x "$pkgdir/opt/'' @ app_name @ ''/'' @ app_name @ ''"'',
      ''    '',
      ''    # Create symlink in /usr/bin'',
      ''    install -dm755 "$pkgdir/usr/bin"'',
      ''    ln -sf "/opt/'' @ app_name @ ''/'' @ app_name @ ''" "$pkgdir/usr/bin/'' @ app_name @ ''"'',
      ''    '',
      ''    # Install desktop file if it exists'',
      ''    if [ -f "$extracted_dir/'' @ app_name @ ''.desktop" ]; then'',
      ''        install -Dm644 "$extracted_dir/'' @ app_name @ ''.desktop" "$pkgdir/usr/share/applications/'' @ app_name @ ''.desktop"'',
      ''    else'',
      ''        # Create a basic desktop file'',
      ''        install -dm755 "$pkgdir/usr/share/applications"'',
      ''        cat > "$pkgdir/usr/share/applications/'' @ app_name @ ''.desktop" << EOF'',
      ''[Desktop Entry]'',
      ''Type=Application'',
      ''Name='' @ capitalize app_name,
      ''Comment='' @ descr,
      ''Exec=/opt/'' @ app_name @ ''/'' @ app_name,
      ''Icon='' @ app_name,
      ''Terminal=false'',
      ''Categories=Utility;'',
      ''EOF'',
      ''    fi'',
      ''    '',
      ''    # Install icon if it exists'',
      ''    if [ -f "$extracted_dir/data/flutter_assets/assets/icons/icon.png" ]; then'',
      ''        install -Dm644 "$extracted_dir/data/flutter_assets/assets/icons/icon.png" ''
        @ ''            "$pkgdir/usr/share/icons/hicolor/256x256/apps/'' @ app_name @ ''.png"'',
      ''    fi'',
      ''    '',
      ''    # Install bundled libraries'',
      ''    if [ -d "$extracted_dir/lib" ]; then'',
      ''        install -dm755 "$pkgdir/opt/'' @ app_name @ ''/lib"'',
      ''        cp -r "$extracted_dir/lib"/* "$pkgdir/opt/'' @ app_name @ ''/lib/"'',
      ''    fi'',
      ''}'']\<close>

definition generate_pkgbuild :: "AURPackage \<Rightarrow> string \<Rightarrow> string \<Rightarrow> string \<Rightarrow> string" where
  "generate_pkgbuild package version download_url sha256 =
     (let app_name = py_replace ''-bin'' [] (name package)
      in unlines (pkgbuild_fields package version download_url sha256
                  @ pkgbuild_install app_name (description package)))"

text \<open>The lines of the source-info summary: the first f-string, the three loops, the last f-string.\<close>

definition srcinfo_fields :: "AURPackage \<Rightarrow> string \<Rightarrow> string \<Rightarrow> string \<Rightarrow> string list" where
  "srcinfo_fields package version download_url sha256 =
     [''pkgbase = '' @ name package,
      [tab] @ ''pkgdesc = '' @ description package,
      [tab] @ ''pkgver = '' @ version,
      [tab] @ ''pkgrel = 1'',
      [tab] @ ''url = '' @ url package,
      [tab] @ ''arch = x86_64'',
      [tab] @ ''license = '' @ license package]
     @ map (\<lambda>dep. [tab] @ ''depends = '' @ dep) (depends package)
     @ map (\<lambda>conflict. [tab] @ ''conflicts = '' @ conflict) (conflicts package)
     @ map (\<lambda>provide. [tab] @ ''provides = '' @ provide) (provides package)
     @ [[tab] @ ''options = !strip'',
        [tab] @ ''source = '' @ name package @ ''-'' @ version @ ''.zip::'' @ download_url,
        [tab] @ ''sha256sums = '' @ sha256,
        [],
        ''pkgname = '' @ name package]"

definition generate_srcinfo :: "AURPackage \<Rightarrow> string \<Rightarrow> string \<Rightarrow> string \<Rightarrow> string" where
  "generate_srcinfo package version download_url sha256 =
     unlines (srcinfo_fields package version download_url sha256)"

section \<open>SHA-256, as \<open>hashlib.sha256\<close> computes it (FIPS 180-4)\<close>

type_synonym byte = "8 word"
type_synonym u32 = "32 word"

definition rotr :: "nat \<Rightarrow> u32 \<Rightarrow> u32" where
  "rotr n x = (drop_bit n x) OR (push_bit (32 - n) x)"

definition Ch :: "u32 \<Rightarrow> u32 \<Rightarrow> u32 \<Rightarrow> u32" where
  "Ch x y z = (x AND y) XOR (NOT x AND z)"

definition Maj :: "u32 \<Rightarrow> u32 \<Rightarrow> u32 \<Rightarrow> u32" where
  "Maj x y z = (x AND y) XOR (x AND z) XOR (y AND z)"

definition bsig0 :: "u32 \<Rightarrow> u32" where
  "bsig0 x = rotr 2 x XOR rotr 13 x XOR rotr 22 x"

definition bsig1 :: "u32 \<Rightarrow> u32" where
  "bsig1 x = rotr 6 x XOR rotr 11 x XOR rotr 25 x"

definition ssig0 :: "u32 \<Rightarrow> u32" where
  "ssig0 x = rotr 7 x XOR rotr 18 x XOR drop_bit 3 x"

definition ssig1 :: "u32 \<Rightarrow> u32" where
  "ssig1 x = rotr 17 x XOR rotr 19 x XOR drop_bit 10 x"

definition K256 :: "u32 list" where
  "K256 = [
   0x428A2F98, 0x71374491, 0xB5C0FBCF, 0xE9B5DBA5, 0x3956C25B, 0x59F111F1, 0x923F82A4, 0xAB1C5ED5,
   0xD807AA98, 0x12835B01, 0x243185BE, 0x550C7DC3, 0x72BE5D74, 0x80DEB1FE, 0x9BDC06A7, 0xC19BF174,
   0xE49B69C1, 0xEFBE4786, 0x0FC19DC6, 0x240CA1CC, 0x2DE92C6F, 0x4A7484AA, 0x5CB0A9DC, 0x76F988DA,
   0x983E5152, 0xA831C66D, 0xB00327C8, 0xBF597FC7, 0xC6E00BF3, 0xD5A79147, 0x06CA6351, 0x14292967,
   0x27B70A85, 0x2E1B2138, 0x4D2C6DFC, 0x53380D13, 0x650A7354, 0x766A0ABB, 0x81C2C92E, 0x92722C85,
   0xA2BFE8A1, 0xA81A664B, 0xC24B8B70, 0xC76C51A3, 0xD192E819, 0xD6990624, 0xF40E3585, 0x106AA070,
   0x19A4C116, 0x1E376C08, 0x2748774C, 0x34B0BCB5, 0x391C0CB3, 0x4ED8AA4A, 0x5B9CCA4F, 0x682E6FF3,
   0x748F82EE, 0x78A5636F, 0x84C87814, 0x8CC70208, 0x90BEFFFA, 0xA4506CEB, 0xBEF9A3F7, 0xC67178F2]"

datatype hstate = H u32 u32 u32 u32 u32 u32 u32 u32

definition H0 :: hstate where
  "H0 = H 0x6A09E667 0xBB67AE85 0x3C6EF372 0xA54FF53A 0x510E527F 0x9B05688C 0x1F83D9AB 0x5BE0CD19"

fun be32 :: "byte list \<Rightarrow> u32" where
  "be32 [a, b, c, d] =
     push_bit 24 (ucast a) OR push_bit 16 (ucast b) OR push_bit 8 (ucast c) OR ucast d"
| "be32 _ = 0"

fun words_of :: "nat \<Rightarrow> byte list \<Rightarrow> u32 list" where
  "words_of 0 bs = []"
| "words_of (Suc n) bs = be32 (take 4 bs) # words_of n (drop 4 bs)"

text \<open>The message schedule; \<open>win\<close> holds the last sixteen words, oldest first.\<close>

fun extend :: "nat \<Rightarrow> u32 list \<Rightarrow> u32 list" where
  "extend 0 win = []"
| "extend (Suc n) win =
     (let w = ssig1 (win ! 14) + win ! 9 + ssig0 (win ! 1) + win ! 0
      in w # extend n (tl win @ [w]))"

definition schedule :: "u32 list \<Rightarrow> u32 list" where
  "schedule m = m @ extend 48 m"

fun round256 :: "hstate \<Rightarrow> u32 \<times> u32 \<Rightarrow> hstate" where
  "round256 (H a b c d e f g h) (k, w) =
     (let t1 = h + bsig1 e + Ch e f g + k + w;
          t2 = bsig0 a + Maj a b c
      in H (t1 + t2) a b c (d + t1) e f g)"

fun hadd :: "hstate \<Rightarrow> hstate \<Rightarrow> hstate" where
  "hadd (H a b c d e f g h) (H a' b' c' d' e' f' g' h') =
     H (a + a') (b + b') (c + c') (d + d') (e + e') (f + f') (g + g') (h + h')"

definition compress :: "hstate \<Rightarrow> byte list \<Rightarrow> hstate" where
  "compress st block = hadd st (foldl round256 st (zip K256 (schedule (words_of 16 block))))"

definition be64 :: "64 word \<Rightarrow> byte list" where
  "be64 w = map (\<lambda>i. ucast (drop_bit (8 * (7 - i)) w)) [0..<8]"

definition pad :: "byte list \<Rightarrow> byte list" where
  "pad m = m @ [0x80] @ replicate ((119 - length m mod 64) mod 64) 0
             @ be64 (8 * of_nat (length m))"

fun blocks :: "nat \<Rightarrow> byte list \<Rightarrow> byte list list" where
  "blocks 0 bs = []"
| "blocks (Suc n) bs = take 64 bs # blocks n (drop 64 bs)"

definition sha256_digest :: "byte list \<Rightarrow> hstate" where
  "sha256_digest m = (let p = pad m in foldl compress H0 (blocks (length p div 64) p))"

definition hex32 :: "u32 \<Rightarrow> string" where
  "hex32 w = map (\<lambda>i. digit_char (unat (drop_bit (4 * (7 - i)) w AND 15))) [0..<8]"

fun hex_of_state :: "hstate \<Rightarrow> string" where
  "hex_of_state (H a b c d e f g h) = concat (map hex32 [a, b, c, d, e, f, g, h])"

text \<open>
  A hash object is the bytes fed to it so far: \<open>update\<close> appends a chunk and
  \<open>hexdigest\<close> is the digest of everything fed, in lowercase hexadecimal digits.
\<close>

definition hash_update :: "byte list \<Rightarrow> byte list \<Rightarrow> byte list" where
  "hash_update h chunk = h @ chunk"

definition hexdigest :: "byte list \<Rightarrow> string" where
  "hexdigest h = hex_of_state (sha256_digest h)"

section \<open>The world outside the process\<close>

text \<open>
  What the network, git and the file system answer. A request that raises
  \<open>requests.RequestException\<close> (connection, timeout, HTTP status, undecodable body) is
  \<open>None\<close> in \<open>api_get\<close>; a download that raises anything is \<open>None\<close> in
  \<open>artifact_get\<close>. \<open>git_timed\<close> answers the two calls made with \<open>timeout=60\<close>:
  \<open>None\<close> is \<open>TimeoutExpired\<close> (for the clone: any exception), otherwise return code
  and standard output. \<open>git_run\<close> answers the calls made without a timeout. A file that
  does not exist or cannot be read is \<open>None\<close> in \<open>file_read\<close>. \<open>ssh_key_ok\<close> is the
  result of \<open>setup_ssh_key\<close>, whose file operations are not modelled. Writing the two
  descriptor files into a fresh clone succeeds; logging is left out.
\<close>

record world =
  api_get :: "string \<Rightarrow> json option"
  artifact_get :: "json \<Rightarrow> byte list option"
  tmp_dir :: "string \<Rightarrow> string"
  git_timed :: "string option \<Rightarrow> string list \<Rightarrow> (int \<times> string) option"
  git_run :: "string option \<Rightarrow> string list \<Rightarrow> int \<times> string"
  file_read :: "string \<Rightarrow> string option"
  ssh_key_ok :: "string \<Rightarrow> bool"

text \<open>What the process does to the world, in order.\<close>

datatype action =
  HttpGet string
| ArtifactGet json
| Git "string option" "string list"
| ReadFile string
| WriteFile string string
| Print string
| PrintSummary "(string \<times> bool \<times> string) list"
| PrintHelp
| SetupSsh string

section \<open>OpenLystClient\<close>

definition BASE_URL :: string where
  "BASE_URL = ''https://openlyst.ink/api/v1''"

definition get_latest_version :: "world \<Rightarrow> string \<Rightarrow> action list \<times> (py_error + json)" where
  "get_latest_version w app_slug =
     (let u = BASE_URL @ ''/apps/'' @ app_slug @ ''/latest''
      in ([HttpGet u],
          case api_get w u of
            None \<Rightarrow> Inr JNull
          | Some data \<Rightarrow>
              (case dict_get data ''success'' JNull of
                 Inl e \<Rightarrow> Inl e
               | Inr ok \<Rightarrow> if truthy ok then dict_get data ''data'' JNull else Inr JNull)))"

text \<open>
  The \<open>except (KeyError, TypeError)\<close> clause turns these two errors into \<open>None\<close>;
  any other error leaves the function.
\<close>

definition get_linux_zip_url :: "json \<Rightarrow> py_error + json" where
  "get_linux_zip_url version_data =
     (let r = (case dict_get version_data ''downloads'' (JObj []) of
                 Inl e \<Rightarrow> Inl e
               | Inr downloads \<Rightarrow>
                   (case dict_get downloads ''Linux'' (JObj []) of
                      Inl e \<Rightarrow> Inl e
                    | Inr linux \<Rightarrow>
                        (case dict_get linux ''zip'' (JObj []) of
                           Inl e \<Rightarrow> Inl e
                         | Inr zip_data \<Rightarrow> dict_get zip_data ''x86_64'' (JStr []))))
      in case r of
           Inl KeyError \<Rightarrow> Inr JNull
         | Inl TypeError \<Rightarrow> Inr JNull
         | Inl AttributeError \<Rightarrow> Inl AttributeError
         | Inr v \<Rightarrow> Inr v)"

section \<open>The digest of the artifact\<close>

text \<open>\<open>response.iter_content(chunk_size=n)\<close>: the body in pieces of \<open>n\<close> bytes.\<close>

function iter_content :: "nat \<Rightarrow> 'a list \<Rightarrow> 'a list list" where
  "iter_content n xs =
     (if n = 0 \<or> xs = [] then [] else take n xs # iter_content n (drop n xs))"
  by pat_completeness auto
termination
  by (relation "measure (\<lambda>(n, xs). length xs)") auto

declare iter_content.simps [simp del]

definition calculate_sha256 :: "world \<Rightarrow> json \<Rightarrow> action list \<times> string option" where
  "calculate_sha256 w u =
     ([ArtifactGet u],
      case artifact_get w u of
        None \<Rightarrow> None
      | Some body \<Rightarrow> Some (hexdigest (foldl hash_update [] (iter_content 8192 body))))"

section \<open>The remote repository\<close>

definition clone_aur_repo :: "world \<Rightarrow> string \<Rightarrow> string \<Rightarrow> action list \<times> string option" where
  "clone_aur_repo w package_name work_dir =
     (let repo_path = work_dir @ ''/'' @ package_name;
          clone = [''git'', ''clone'', ''ssh://aur@aur.archlinux.org/'' @ package_name @ ''.git'',
                   repo_path]
      in ([Git None clone],
          case git_timed w None clone of
            None \<Rightarrow> None
          | Some (returncode, out) \<Rightarrow> if returncode \<noteq> 0 then None else Some repo_path))"

text \<open>\<open>check=True\<close>: a non-zero return code raises \<open>CalledProcessError\<close>.\<close>

definition configure_git :: "world \<Rightarrow> string \<Rightarrow> action list \<times> bool" where
  "configure_git w repo_path =
     (let email = [''git'', ''config'', ''user.email'', ''httpanimations@proton.me''];
          user = [''git'', ''config'', ''user.name'', ''HttpAnimations'']
      in if fst (git_run w (Some repo_path) email) \<noteq> 0
         then ([Git (Some repo_path) email], False)
         else if fst (git_run w (Some repo_path) user) \<noteq> 0
         then ([Git (Some repo_path) email, Git (Some repo_path) user], False)
         else ([Git (Some repo_path) email, Git (Some repo_path) user], True))"

definition commit_and_push :: "world \<Rightarrow> string \<Rightarrow> string \<Rightarrow> string \<Rightarrow> action list \<times> bool" where
  "commit_and_push w repo_path version package_name =
     (let cwd = Some repo_path;
          add = [''git'', ''add'', ''-A''];
          status = [''git'', ''status'', ''--porcelain''];
          commit_msg = ''Update '' @ package_name @ '' to version '' @ version;
          commit = [''git'', ''commit'', ''-m'', commit_msg];
          push = [''git'', ''push'', ''origin'', ''master'']
      in if fst (git_run w cwd add) \<noteq> 0
         then ([Git cwd add], False)
         else if strip (snd (git_run w cwd status)) = []
         then ([Git cwd add, Git cwd status], True)
         else if fst (git_run w cwd commit) \<noteq> 0
         then ([Git cwd add, Git cwd status, Git cwd commit], False)
         else ([Git cwd add, Git cwd status, Git cwd commit, Git cwd push],
               case git_timed w cwd push of
                 None \<Rightarrow> False
               | Some (returncode, out) \<Rightarrow> returncode = 0))"

section \<open>The version gate\<close>

text \<open>
  The loop over the lines of the recipe. A line that starts with \<open>pkgver=\<close> has at
  least two pieces; were there fewer, the \<open>IndexError\<close> would be caught and the
  result \<open>None\<close>.
\<close>

fun scan_pkgver :: "string list \<Rightarrow> string option" where
  "scan_pkgver [] = None"
| "scan_pkgver (line # rest) =
     (if startswith line ''pkgver=''
      then (case split (CHR ''='') (strip line) of
              key # v # others \<Rightarrow> Some v
            | _ \<Rightarrow> None)
      else scan_pkgver rest)"

definition get_current_aur_version :: "world \<Rightarrow> string \<Rightarrow> action list \<times> string option" where
  "get_current_aur_version w repo_path =
     (let pkgbuild_path = repo_path @ ''/PKGBUILD''
      in ([ReadFile pkgbuild_path],
          case file_read w pkgbuild_path of
            None \<Rightarrow> None
          | Some content \<Rightarrow> scan_pkgver (text_lines content)))"

text \<open>\<open>current_version == version\<close>, an optional string against a decoded value.\<close>

fun py_eq :: "string option \<Rightarrow> json \<Rightarrow> bool" where
  "py_eq None v = (v = JNull)"
| "py_eq (Some s) v = (v = JStr s)"

section \<open>Updating one package\<close>

text \<open>The body of the \<open>with tempfile.TemporaryDirectory()\<close> block.\<close>

definition update_in_tmp_dir ::
  "world \<Rightarrow> AURPackage \<Rightarrow> string \<Rightarrow> json \<Rightarrow> json \<Rightarrow> string \<Rightarrow> bool
     \<Rightarrow> action list \<times> bool \<times> string" where
  "update_in_tmp_dir w package package_name version download_url sha256 force =
     (let (t1, repo) = clone_aur_repo w package_name (tmp_dir w package_name)
      in case repo of
           None \<Rightarrow> (t1, False, ''Failed to clone AUR repository'')
         | Some repo_path \<Rightarrow>
             (let (t2, current_version) = get_current_aur_version w repo_path
              in if py_eq current_version version \<and> \<not> force
                 then (t1 @ t2, True,
                       package_name @ '' is already at version '' @ py_str version)
                 else
                   (let (t3, configured) = configure_git w repo_path
                    in if \<not> configured
                       then (t1 @ t2 @ t3, False, ''Failed to configure git'')
                       else
                         (let t4 = [WriteFile (repo_path @ ''/PKGBUILD'')
                                      (generate_pkgbuild package (py_str version)
                                         (py_str download_url) sha256),
                                    WriteFile (repo_path @ ''/.SRCINFO'')
                                      (generate_srcinfo package (py_str version)
                                         (py_str download_url) sha256)];
                              (t5, pushed) =
                                commit_and_push w repo_path (py_str version) package_name
                          in if \<not> pushed
                             then (t1 @ t2 @ t3 @ t4 @ t5, False,
                                   ''Failed to push changes to AUR'')
                             else (t1 @ t2 @ t3 @ t4 @ t5, True,
                                   ''Successfully updated '' @ package_name
                                     @ '' to version '' @ py_str version)))))"

definition update_package ::
  "world \<Rightarrow> string \<Rightarrow> bool \<Rightarrow> bool \<Rightarrow> action list \<times> (py_error + bool \<times> string)" where
  "update_package w package_name dry_run force =
     (case map_of AUR_PACKAGES package_name of
        None \<Rightarrow> ([], Inr (False, ''Unknown package: '' @ package_name))
      | Some package \<Rightarrow>
          (let (t1, fetched) = get_latest_version w (slug package)
           in case fetched of
                Inl e \<Rightarrow> (t1, Inl e)
              | Inr version_data \<Rightarrow>
                  if \<not> truthy version_data
                  then (t1, Inr (False, ''Failed to fetch version data for '' @ slug package))
                  else
                    (case dict_get version_data ''version'' JNull of
                       Inl e \<Rightarrow> (t1, Inl e)
                     | Inr version \<Rightarrow>
                         if \<not> truthy version
                         then (t1, Inr (False, ''No version found in API response''))
                         else
                           (case get_linux_zip_url version_data of
                              Inl e \<Rightarrow> (t1, Inl e)
                            | Inr download_url \<Rightarrow>
                                if \<not> truthy download_url
                                then (t1, Inr (False,
                                        ''No Linux x86_64 zip download URL found for ''
                                          @ slug package))
                                else
                                  (let (t2, digest) = calculate_sha256 w download_url
                                   in case digest of
                                        None \<Rightarrow>
                                          (t1 @ t2,
                                           Inr (False, ''Failed to calculate SHA256 hash''))
                                      | Some sha256 \<Rightarrow>
                                          if sha256 = []
                                          then (t1 @ t2,
                                                Inr (False, ''Failed to calculate SHA256 hash''))
                                          else if dry_run
                                          then (t1 @ t2
                                                  @ [Print (generate_pkgbuild package
                                                       (py_str version) (py_str download_url)
                                                       sha256)],
                                                Inr (True,
                                                  ''Dry run completed for '' @ package_name
                                                    @ '' v'' @ py_str version))
                                          else
                                            (let (t3, r) =
                                               update_in_tmp_dir w package package_name
                                                 version download_url sha256 force
                                             in (t1 @ t2 @ t3, Inr r)))))))"

section \<open>The run\<close>

record args =
  arg_package :: "string option"
  arg_all :: bool
  arg_dry_run :: bool
  arg_force :: bool
  arg_ssh_key :: "string option"
  arg_verbose :: bool

text \<open>
  The end of the process: \<open>Exit n\<close> is the exit code \<open>n\<close> (\<open>sys.exit(1)\<close>, or 0 when
  \<open>main\<close> returns); \<open>Traceback e\<close> is an exception nobody caught, which ends the
  process with a traceback and exit code 1.
\<close>

datatype exit_status = Exit int | Traceback py_error

fun exit_code :: "exit_status \<Rightarrow> int" where
  "exit_code (Exit n) = n"
| "exit_code (Traceback e) = 1"

text \<open>The loop \<open>for package_name in packages\<close>, appending to \<open>results\<close>.\<close>

fun update_packages ::
  "world \<Rightarrow> string list \<Rightarrow> bool \<Rightarrow> bool
     \<Rightarrow> action list \<times> (py_error + (string \<times> bool \<times> string) list)" where
  "update_packages w [] dry_run force = ([], Inr [])"
| "update_packages w (package_name # rest) dry_run force =
     (case update_package w package_name dry_run force of
        (t, Inl e) \<Rightarrow> (t, Inl e)
      | (t, Inr (success, message)) \<Rightarrow>
          (case update_packages w rest dry_run force of
             (t', Inl e) \<Rightarrow> (t @ t', Inl e)
           | (t', Inr results) \<Rightarrow>
               (t @ t', Inr ((package_name, success, message) # results))))"

fun success_count :: "(string \<times> bool \<times> string) list \<Rightarrow> nat" where
  "success_count [] = 0"
| "success_count ((package_name, success, message) # rest) =
     (if success then 1 + success_count rest else success_count rest)"

text \<open>
  Which packages the arguments ask for: all keys of the registry, or the one named;
  nothing (\<open>None\<close>) when neither \<open>--all\<close> nor a non-empty \<open>--package\<close> is given.
\<close>

definition requested_packages :: "args \<Rightarrow> string list option" where
  "requested_packages a =
     (if arg_all a then Some (map fst AUR_PACKAGES)
      else (case arg_package a of
              None \<Rightarrow> None
            | Some p \<Rightarrow> if p = [] then None else Some [p]))"

text \<open>\<open>if args.ssh_key: setup_ssh_key(args.ssh_key)\<close>: the trace and whether it went well.\<close>

definition setup_ssh_key_if_given :: "world \<Rightarrow> args \<Rightarrow> action list \<times> bool" where
  "setup_ssh_key_if_given w a =
     (case arg_ssh_key a of
        None \<Rightarrow> ([], True)
      | Some k \<Rightarrow> if k = [] then ([], True) else ([SetupSsh k], ssh_key_ok w k))"

definition main :: "world \<Rightarrow> args \<Rightarrow> action list \<times> exit_status" where
  "main w a =
     (case setup_ssh_key_if_given w a of
        (t0, False) \<Rightarrow> (t0, Exit 1)
      | (t0, True) \<Rightarrow>
          (case requested_packages a of
             None \<Rightarrow> (t0 @ [PrintHelp], Exit 1)
           | Some packages \<Rightarrow>
               (case update_packages w packages (arg_dry_run a) (arg_force a) of
                  (t, Inl e) \<Rightarrow> (t0 @ t, Traceback e)
                | (t, Inr results) \<Rightarrow>
                    (t0 @ t @ [PrintSummary results],
                     if success_count results < length results
                     then Exit 1 else Exit 0))))"

section \<open>Notions of the specification\<close>

text \<open>
  The entry of a release structure at a path of keys; there is none (\<open>None\<close>) when
  a key of the path is missing or when a value on the way is not a dict. A platform
  entry is missing from a release when there is none at
  \<open>downloads / Linux / zip / x86_64\<close>.
\<close>

fun entry_at :: "json \<Rightarrow> string list \<Rightarrow> json option" where
  "entry_at v [] = Some v"
| "entry_at (JObj kvs) (k # ks) =
     (case map_of kvs k of None \<Rightarrow> None | Some v \<Rightarrow> entry_at v ks)"
| "entry_at v (k # ks) = None"

text \<open>
  The narrower case that the defaults of \<open>.get\<close> cover: every value met on the
  path is a dict, and one of these dicts lacks the next key.
\<close>

fun key_missing :: "json \<Rightarrow> string list \<Rightarrow> bool" where
  "key_missing v [] = False"
| "key_missing (JObj kvs) (k # ks) =
     (case map_of kvs k of None \<Rightarrow> True | Some v \<Rightarrow> key_missing v ks)"
| "key_missing v (k # ks) = False"




text \<open>A value without a line break.\<close>

definition single_line :: "string \<Rightarrow> bool" where
  "single_line s = (nl \<notin> set s \<and> cr \<notin> set s)"

text \<open>
  Reading a declared field back from the lines of a descriptor file: what follows the
  key on the first line that starts with it (\<open>first_field\<close>), or on every such line
  (\<open>all_fields\<close>), without the line break.
\<close>

definition field_value :: "string \<Rightarrow> string \<Rightarrow> string" where
  "field_value key line = takeWhile (\<lambda>c. c \<noteq> nl) (drop (length key) line)"

fun first_field :: "string \<Rightarrow> string list \<Rightarrow> string option" where
  "first_field key [] = None"
| "first_field key (line # rest) =
     (if startswith line key then Some (field_value key line) else first_field key rest)"

definition all_fields :: "string \<Rightarrow> string list \<Rightarrow> string list" where
  "all_fields key ls = map (field_value key) (filter (\<lambda>line. startswith line key) ls)"



text \<open>Inputs of the renderers in which no value has a line break.\<close>

definition single_line_inputs :: "AURPackage \<Rightarrow> string \<Rightarrow> string \<Rightarrow> string \<Rightarrow> bool" where
  "single_line_inputs p v u s =
     (single_line (name p) \<and> single_line v \<and> single_line (description p) \<and>
      single_line (url p) \<and> single_line (license p) \<and>
      list_all single_line (depends p) \<and> list_all single_line (conflicts p) \<and>
      list_all single_line (provides p) \<and> single_line u \<and> single_line s)"

section \<open>Concrete worlds and inputs\<close>

text \<open>
  The release of the end-to-end scenario: version 2.3.0 with a Linux zip for x86_64, as
  the API answers it.
\<close>

definition sample_data :: json where
  "sample_data =
     JObj [(''version'', JStr ''2.3.0''),
           (''downloads'',
            JObj [(''Linux'',
                   JObj [(''zip'',
                          JObj [(''x86_64'', JStr ''https://example/sample-2.3.0.zip'')])])])]"

definition sample_release :: json where
  "sample_release = JObj [(''success'', JBool True), (''data'', sample_data)]"

text \<open>
  A world where only \<open>klit\<close> has a release; the artifact is empty, every git command
  succeeds with no output, and there is no recipe in the clone.
\<close>

definition klit_only_world :: world where
  "klit_only_world = \<lparr>
     api_get = (\<lambda>u. if u = ''https://openlyst.ink/api/v1/apps/klit/latest''
                     then Some sample_release else None),
     artifact_get = (\<lambda>u. Some []),
     tmp_dir = (\<lambda>n. ''/tmp/aur''),
     git_timed = (\<lambda>cwd argv. Some (0, [])),
     git_run = (\<lambda>cwd argv. (0, [])),
     file_read = (\<lambda>p. None),
     ssh_key_ok = (\<lambda>k. True)\<rparr>"

definition all_dry_run :: args where
  "all_dry_run = \<lparr>arg_package = None, arg_all = True, arg_dry_run = True,
     arg_force = False, arg_ssh_key = None, arg_verbose = False\<rparr>"

text \<open>A release whose \<open>downloads\<close> entry is \<open>null\<close>.\<close>

definition null_downloads_release :: json where
  "null_downloads_release =
     JObj [(''success'', JBool True),
           (''data'', JObj [(''version'', JStr ''1.0''), (''downloads'', JNull)])]"

definition null_downloads_world :: world where
  "null_downloads_world = klit_only_world
     \<lparr>api_get := (\<lambda>u. if u = ''https://openlyst.ink/api/v1/apps/klit/latest''
                      then Some null_downloads_release else Some sample_release)\<rparr>"

text \<open>The three results of \<open>--all --dry-run\<close> in the world where only \<open>klit\<close> has a release.\<close>

definition klit_only_results :: "(string \<times> bool \<times> string) list" where
  "klit_only_results =
     [(''klit-bin'', True, ''Dry run completed for klit-bin v2.3.0''),
      (''doudou-bin'', False, ''Failed to fetch version data for doudou''),
      (''finar-bin'', False, ''Failed to fetch version data for finar'')]"





text \<open>
  A release without any download, its \<open>downloads\<close> an empty list, and a world
  where \<open>klit\<close> has this release and the other two packages have a proper one.
\<close>

definition no_downloads_data :: json where
  "no_downloads_data = JObj [(''version'', JStr ''1.0''), (''downloads'', JArr [])]"

definition no_downloads_world :: world where
  "no_downloads_world = klit_only_world
     \<lparr>api_get := (\<lambda>u. if u = ''https://openlyst.ink/api/v1/apps/klit/latest''
                      then Some (JObj [(''success'', JBool True), (''data'', no_downloads_data)])
                      else Some sample_release)\<rparr>"




section \<open>Basic facts\<close>

lemma map_of_registry:
  "map_of AUR_PACKAGES ''klit-bin'' = Some klit_bin"
  "map_of AUR_PACKAGES ''doudou-bin'' = Some doudou_bin"
  "map_of AUR_PACKAGES ''finar-bin'' = Some finar_bin"
  by (simp_all add: AUR_PACKAGES_def)

lemma length_hex32: "length (hex32 w) = 8"
  by (simp add: hex32_def)

lemma length_hex_of_state: "length (hex_of_state s) = 64"
  by (cases s) (simp add: length_hex32)

lemma length_hexdigest: "length (hexdigest h) = 64"
  by (simp add: hexdigest_def length_hex_of_state)

lemma hexdigest_nonempty: "hexdigest h \<noteq> []"
  using length_hexdigest [of h] by auto

lemma iter_content_Nil: "iter_content n [] = []"
  by (simp add: iter_content.simps)

lemma concat_iter_content: "0 < n \<Longrightarrow> concat (iter_content n xs) = xs"
proof (induction n xs rule: iter_content.induct)
  case (1 n xs)
  show ?case
  proof (cases "xs = []")
    case True
    then show ?thesis by (simp add: iter_content_Nil)
  next
    case False
    with 1 have "concat (iter_content n (drop n xs)) = drop n xs" by simp
    with False 1(2) show ?thesis
      by (subst iter_content.simps) simp
  qed
qed

lemma foldl_hash_update: "foldl hash_update h chunks = h @ concat chunks"
  by (induction chunks arbitrary: h) (simp_all add: hash_update_def)

lemma hashed_chunks: "foldl hash_update [] (iter_content 8192 body) = body"
  by (simp add: foldl_hash_update concat_iter_content)

lemma calculate_sha256_eq:
  "calculate_sha256 w u = ([ArtifactGet u], map_option hexdigest (artifact_get w u))"
  by (simp add: calculate_sha256_def hashed_chunks split: option.splits)

section \<open>Unknown package names\<close>

text \<open>
  Claim C10. A package name that is not a key of the registry \<open>AUR_PACKAGES\<close> gives
  the failed result with the message \<open>Unknown package: <name>\<close>, and the trace of
  actions is empty: no release fetch, no download, no clone, no push.
\<close>

theorem unknown_package_fails_offline:
  assumes "package_name \<notin> set (map fst AUR_PACKAGES)"
  shows "update_package w package_name dry_run force =
           ([], Inr (False, ''Unknown package: '' @ package_name))"
proof -
  from assms have "map_of AUR_PACKAGES package_name = None"
    by (simp add: map_of_eq_None_iff)
  then show ?thesis by (simp add: update_package_def)
qed

theorem unknown_package_fails_offline_witness:
  "''sample-bin'' \<notin> set (map fst AUR_PACKAGES) \<and>
   update_package klit_only_world ''sample-bin'' False True =
     ([], Inr (False, ''Unknown package: sample-bin''))"
proof -
  have h: "''sample-bin'' \<notin> set (map fst AUR_PACKAGES)"
    by (simp add: AUR_PACKAGES_def)
  show ?thesis
    using h unknown_package_fails_offline [OF h, of klit_only_world False True] by simp
qed

section \<open>The exit code of a run\<close>

lemma success_count_le: "success_count rs \<le> length rs"
  by (induction rs rule: success_count.induct) auto

lemma success_count_less_iff:
  "success_count rs < length rs \<longleftrightarrow> (\<exists>r \<in> set rs. \<not> fst (snd r))"
proof (induction rs rule: success_count.induct)
  case 1
  then show ?case by simp
next
  case (2 package_name success message rest)
  then show ?case
    using success_count_le [of rest] by (cases success) auto
qed

lemma main_processing:
  assumes "snd (setup_ssh_key_if_given w a)"
    and "requested_packages a = Some packages"
    and "snd (update_packages w packages (arg_dry_run a) (arg_force a)) = Inr results"
  shows "snd (main w a) = (if success_count results < length results then Exit 1 else Exit 0)"
proof -
  obtain t where "update_packages w packages (arg_dry_run a) (arg_force a) = (t, Inr results)"
    using assms(3) by (cases "update_packages w packages (arg_dry_run a) (arg_force a)") simp
  moreover obtain t0 where "setup_ssh_key_if_given w a = (t0, True)"
    using assms(1) by (cases "setup_ssh_key_if_given w a") simp
  ultimately show ?thesis
    using assms(2) by (simp add: main_def)
qed

lemma update_packages_snd_Cons:
  "snd (update_packages w (p # ps) d f) =
     (case snd (update_package w p d f) of
        Inl e \<Rightarrow> Inl e
      | Inr r \<Rightarrow> (case snd (update_packages w ps d f) of
                   Inl e \<Rightarrow> Inl e
                 | Inr rs \<Rightarrow> Inr ((p, fst r, snd r) # rs)))"
  by (simp split: prod.splits sum.splits)

lemma klit_dry_run:
  "snd (update_package klit_only_world ''klit-bin'' True False) =
     Inr (True, ''Dry run completed for klit-bin v2.3.0'')"
  by (simp add: update_package_def get_latest_version_def BASE_URL_def klit_only_world_def
      sample_release_def sample_data_def klit_bin_def get_linux_zip_url_def
      calculate_sha256_eq hexdigest_nonempty split_def map_of_registry)

lemma doudou_dry_run:
  "snd (update_package klit_only_world ''doudou-bin'' True False) =
     Inr (False, ''Failed to fetch version data for doudou'')"
  by (simp add: update_package_def get_latest_version_def BASE_URL_def klit_only_world_def
      doudou_bin_def map_of_registry)

lemma finar_dry_run:
  "snd (update_package klit_only_world ''finar-bin'' True False) =
     Inr (False, ''Failed to fetch version data for finar'')"
  by (simp add: update_package_def get_latest_version_def BASE_URL_def klit_only_world_def
      finar_bin_def map_of_registry)

lemma klit_only_run:
  "snd (update_packages klit_only_world [''klit-bin'', ''doudou-bin'', ''finar-bin''] True False)
     = Inr klit_only_results"
  by (simp only: update_packages_snd_Cons klit_dry_run doudou_dry_run finar_dry_run)
     (simp add: klit_only_results_def)

lemma all_dry_run_request:
  "requested_packages all_dry_run = Some [''klit-bin'', ''doudou-bin'', ''finar-bin'']"
  by (simp add: requested_packages_def all_dry_run_def AUR_PACKAGES_def)

lemma all_dry_run_setup: "snd (setup_ssh_key_if_given w all_dry_run)"
  by (simp add: setup_ssh_key_if_given_def all_dry_run_def)

lemma all_dry_run_flags: "arg_dry_run all_dry_run = True" "arg_force all_dry_run = False"
  by (simp_all add: all_dry_run_def)

lemma klit_only_run_flags:
  "snd (update_packages klit_only_world [''klit-bin'', ''doudou-bin'', ''finar-bin'']
          (arg_dry_run all_dry_run) (arg_force all_dry_run)) = Inr klit_only_results"
  by (simp only: all_dry_run_flags klit_only_run)

text \<open>
  Claim C1, as the code has it. When the key setup does not fail, some packages are
  requested and the loop returns its results, the exit code is non-zero if and only if
  at least one package failed: \<open>main\<close> exits with 1 when the number of successes is below
  the number of results ("Exit with error if any package failed") and returns, exit
  code 0, when every package succeeded.
\<close>

theorem exit_code_nonzero_iff_some_failure:
  assumes "snd (setup_ssh_key_if_given w a)"
    and "requested_packages a = Some packages"
    and "snd (update_packages w packages (arg_dry_run a) (arg_force a)) = Inr results"
  shows "exit_code (snd (main w a)) \<noteq> 0 \<longleftrightarrow> (\<exists>r \<in> set results. \<not> fst (snd r))"
  using main_processing [OF assms] success_count_less_iff [of results] by simp

theorem exit_code_nonzero_iff_some_failure_witness:
  "snd (setup_ssh_key_if_given klit_only_world all_dry_run) \<and>
   requested_packages all_dry_run = Some [''klit-bin'', ''doudou-bin'', ''finar-bin''] \<and>
   snd (update_packages klit_only_world [''klit-bin'', ''doudou-bin'', ''finar-bin'']
          (arg_dry_run all_dry_run) (arg_force all_dry_run)) = Inr klit_only_results \<and>
   exit_code (snd (main klit_only_world all_dry_run)) \<noteq> 0"
proof -
  note h3 = klit_only_run_flags
  have "\<exists>r \<in> set klit_only_results. \<not> fst (snd r)"
    by (simp add: klit_only_results_def)
  with exit_code_nonzero_iff_some_failure [OF all_dry_run_setup all_dry_run_request h3]
  have "exit_code (snd (main klit_only_world all_dry_run)) \<noteq> 0" by blast
  with all_dry_run_setup all_dry_run_request h3 show ?thesis by blast
qed

text \<open>
  The claim as the specification states it fails: with \<open>--all --dry-run\<close> in a world
  where only \<open>klit\<close> has a release, one package of three succeeds and the exit code is 1.
\<close>

theorem partial_failure_exits_nonzero:
  "snd (update_packages klit_only_world [''klit-bin'', ''doudou-bin'', ''finar-bin''] True False)
     = Inr klit_only_results \<and>
   success_count klit_only_results = 1 \<and>
   exit_code (snd (main klit_only_world all_dry_run)) = 1"
proof -
  have a: "success_count klit_only_results = 1"
    by (simp add: klit_only_results_def)
  have "snd (main klit_only_world all_dry_run) = Exit 1"
    using main_processing [OF all_dry_run_setup all_dry_run_request klit_only_run_flags]
    by (simp add: klit_only_results_def)
  then have b: "exit_code (snd (main klit_only_world all_dry_run)) = 1"
    by simp
  from klit_only_run a b show ?thesis by blast
qed

section \<open>One result per package\<close>

text \<open>
  When the loop returns, it returns one result for every requested package, in the
  order of the request.
\<close>

lemma results_in_request_order:
  "update_packages w packages d f = (t, Inr results) \<Longrightarrow> map fst results = packages"
proof (induction packages arbitrary: t results)
  case Nil
  then show ?case by simp
next
  case (Cons p ps)
  then show ?case
    by (auto split: prod.splits sum.splits)
qed

lemma null_downloads_raises:
  "get_linux_zip_url (JObj [(''version'', JStr ''1.0''), (''downloads'', JNull)])
     = Inl AttributeError"
  by (simp add: get_linux_zip_url_def)

lemma null_downloads_klit:
  "update_package null_downloads_world ''klit-bin'' d f =
     ([HttpGet ''https://openlyst.ink/api/v1/apps/klit/latest''], Inl AttributeError)"
  by (simp add: update_package_def get_latest_version_def BASE_URL_def
      null_downloads_world_def klit_only_world_def null_downloads_release_def klit_bin_def
      null_downloads_raises map_of_registry)

text \<open>
  Claim C3 at a release whose \<open>downloads\<close> entry is \<open>null\<close>: \<open>None.get\<close> raises
  \<open>AttributeError\<close>, which \<open>except (KeyError, TypeError)\<close> does not catch, and neither
  \<open>update_package\<close> nor \<open>main\<close> catches anything. With \<open>--all\<close> the run ends in a
  traceback after the first request: no result is recorded, and the releases of the two
  packages that follow, which this world has, are never fetched.
\<close>

theorem null_downloads_aborts_run:
  "main null_downloads_world all_dry_run =
     ([HttpGet ''https://openlyst.ink/api/v1/apps/klit/latest''], Traceback AttributeError)"
proof -
  have "setup_ssh_key_if_given null_downloads_world all_dry_run = ([], True)"
    by (simp add: setup_ssh_key_if_given_def all_dry_run_def)
  then show ?thesis
    by (simp add: main_def all_dry_run_request null_downloads_klit)
qed

section \<open>A release without a Linux download\<close>

lemma key_missing_zip_url:
  assumes "key_missing version_data [''downloads'', ''Linux'', ''zip'', ''x86_64'']"
  shows "get_linux_zip_url version_data = Inr (JStr [])"
proof -
  from assms obtain kvs where vd: "version_data = JObj kvs"
    by (cases version_data) simp_all
  show ?thesis
  proof (cases "map_of kvs ''downloads''")
    case None
    with vd show ?thesis by (simp add: get_linux_zip_url_def)
  next
    case (Some downloads)
    with assms vd have m1: "key_missing downloads [''Linux'', ''zip'', ''x86_64'']" by simp
    then obtain d where dl: "downloads = JObj d" by (cases downloads) simp_all
    show ?thesis
    proof (cases "map_of d ''Linux''")
      case None
      with vd Some dl show ?thesis by (simp add: get_linux_zip_url_def)
    next
      case (Some linux)
      with m1 dl have m2: "key_missing linux [''zip'', ''x86_64'']" by simp
      then obtain l where lx: "linux = JObj l" by (cases linux) simp_all
      show ?thesis
      proof (cases "map_of l ''zip''")
        case None
        with vd \<open>map_of kvs ''downloads'' = Some downloads\<close> dl Some lx show ?thesis
          by (simp add: get_linux_zip_url_def)
      next
        case (Some zip_data)
        with m2 lx have m3: "key_missing zip_data [''x86_64'']" by simp
        then obtain z where zd: "zip_data = JObj z" by (cases zip_data) simp_all
        with m3 have "map_of z ''x86_64'' = None" by (simp split: option.splits)
        with vd \<open>map_of kvs ''downloads'' = Some downloads\<close> dl
          \<open>map_of d ''Linux'' = Some linux\<close> lx Some zd show ?thesis
          by (simp add: get_linux_zip_url_def)
      qed
    qed
  qed
qed

lemma truthy_version_data:
  assumes "dict_get version_data ''version'' JNull = Inr version" and "truthy version"
  shows "truthy version_data"
proof -
  from assms(1) obtain kvs where vd: "version_data = JObj kvs"
    by (cases version_data) simp_all
  with assms have "kvs \<noteq> []" by (auto split: option.splits)
  with vd show ?thesis by simp
qed

text \<open>
  What the defaults of \<open>.get\<close> cover: when every value met on the way to
  \<open>downloads / Linux / zip / x86_64\<close> is a dict and one of them lacks the next key,
  \<open>get_linux_zip_url\<close> raises nothing and returns the empty string, which counts as
  no URL, and a registered package whose release (with a version) is such gets the failed
  result "No Linux x86_64 zip download URL found", after the release fetch and nothing
  else.
\<close>

lemma missing_key_is_failure:
  assumes "key_missing version_data [''downloads'', ''Linux'', ''zip'', ''x86_64'']"
    and "map_of AUR_PACKAGES package_name = Some package"
    and "get_latest_version w (slug package) = (t, Inr version_data)"
    and "dict_get version_data ''version'' JNull = Inr version"
    and "truthy version"
  shows "get_linux_zip_url version_data = Inr (JStr []) \<and> \<not> truthy (JStr []) \<and>
         update_package w package_name dry_run force =
           (t, Inr (False, ''No Linux x86_64 zip download URL found for '' @ slug package))"
  using assms(2-5) key_missing_zip_url [OF assms(1)] truthy_version_data [OF assms(4,5)]
  by (simp add: update_package_def)

lemma no_downloads_fetch:
  "get_latest_version no_downloads_world ''klit'' =
     ([HttpGet ''https://openlyst.ink/api/v1/apps/klit/latest''], Inr no_downloads_data)"
  by (simp add: get_latest_version_def BASE_URL_def no_downloads_world_def klit_only_world_def)

text \<open>
  Claim C9 at a release that has no download at all, its \<open>downloads\<close> being an
  empty list: there is no entry at \<open>downloads / Linux / zip / x86_64\<close>, and
  \<open>downloads.get\<close> raises \<open>AttributeError\<close>, which the clause
  \<open>except (KeyError, TypeError)\<close> does not catch. The extraction raises instead of
  returning no URL, and the package has no failed result: the exception leaves
  \<open>update_package\<close>.
\<close>

theorem missing_entry_raises:
  "entry_at no_downloads_data [''downloads'', ''Linux'', ''zip'', ''x86_64''] = None \<and>
   get_linux_zip_url no_downloads_data = Inl AttributeError \<and>
   update_package no_downloads_world ''klit-bin'' False False =
     ([HttpGet ''https://openlyst.ink/api/v1/apps/klit/latest''], Inl AttributeError)"
proof -
  have a: "entry_at no_downloads_data [''downloads'', ''Linux'', ''zip'', ''x86_64''] = None"
    by (simp add: no_downloads_data_def)
  have b: "get_linux_zip_url no_downloads_data = Inl AttributeError"
    by (simp add: get_linux_zip_url_def no_downloads_data_def)
  have c: "dict_get no_downloads_data ''version'' JNull = Inr (JStr ''1.0'')"
    by (simp add: no_downloads_data_def)
  have d: "truthy no_downloads_data" by (simp add: no_downloads_data_def)
  have "slug klit_bin = ''klit''" by (simp add: klit_bin_def)
  with b c d no_downloads_fetch
  have "update_package no_downloads_world ''klit-bin'' False False =
     ([HttpGet ''https://openlyst.ink/api/v1/apps/klit/latest''], Inl AttributeError)"
    by (simp add: update_package_def map_of_registry)
  with a b show ?thesis by blast
qed

section \<open>Commit and push\<close>






section \<open>The lines of the rendered files\<close>

lemma single_line_simps:
  "single_line []"
  "single_line (c # cs) = (c \<noteq> nl \<and> c \<noteq> cr \<and> single_line cs)"
  "single_line (xs @ ys) = (single_line xs \<and> single_line ys)"
  by (auto simp: single_line_def)

lemma text_lines_from_line:
  "single_line l \<Longrightarrow>
     text_lines_from acc (l @ nl # rest) = (acc @ l @ [nl]) # text_lines_from [] rest"
proof (induction l arbitrary: acc)
  case Nil
  then show ?case by simp
next
  case (Cons c l)
  then have "c \<noteq> nl" "c \<noteq> cr" "single_line l" by (simp_all add: single_line_simps)
  with Cons.IH [of "acc @ [c]"] show ?case by simp
qed

lemma unlines_Cons: "unlines (l # ls) = l @ nl # unlines ls"
  by (simp add: unlines_def)

lemma unlines_Nil: "unlines [] = []"
  by (simp add: unlines_def)

lemma text_lines_unlines_Cons:
  "single_line l \<Longrightarrow> text_lines (unlines (l # ls)) = (l @ [nl]) # text_lines (unlines ls)"
  using text_lines_from_line [of l "[]" "unlines ls"]
  by (simp add: text_lines_def unlines_Cons)

lemma text_lines_unlines:
  "\<forall>l \<in> set ls. single_line l \<Longrightarrow> text_lines (unlines ls) = map (\<lambda>l. l @ [nl]) ls"
  by (induction ls) (simp_all add: text_lines_unlines_Cons, simp add: text_lines_def unlines_Nil)



lemma text_lines_unlines_append:
  "\<forall>l \<in> set ls. single_line l \<Longrightarrow>
     text_lines (unlines (ls @ ms)) = map (\<lambda>l. l @ [nl]) ls @ text_lines (unlines ms)"
  by (induction ls) (simp_all add: text_lines_unlines_Cons)

lemma first_field_append:
  "first_field key (xs @ ys) =
     (case first_field key xs of Some v \<Rightarrow> Some v | None \<Rightarrow> first_field key ys)"
  by (induction xs) simp_all

lemma single_line_join:
  "\<forall>x \<in> set xs. single_line x \<Longrightarrow> single_line sep \<Longrightarrow> single_line (join sep xs)"
  by (induction sep xs rule: join.induct) (simp_all add: single_line_simps)

lemma single_line_quoted_list:
  "\<forall>x \<in> set xs. single_line x \<Longrightarrow> single_line (quoted_list xs)"
  unfolding quoted_list_def
  by (rule single_line_join) (auto simp: single_line_simps sq_def nl_def cr_def)

lemma pkgbuild_fields_single_line:
  assumes "single_line (name p)" "single_line v" "single_line (description p)"
    "single_line (url p)" "single_line (license p)"
    "\<forall>x \<in> set (depends p). single_line x" "\<forall>x \<in> set (conflicts p). single_line x"
    "\<forall>x \<in> set (provides p). single_line x" "single_line u" "single_line s"
  shows "\<forall>l \<in> set (pkgbuild_fields p v u s). single_line l"
  using assms single_line_quoted_list [OF assms(6)] single_line_quoted_list [OF assms(7)]
    single_line_quoted_list [OF assms(8)]
  by (simp add: pkgbuild_fields_def single_line_simps sq_def nl_def cr_def)

lemma pkgbuild_lines:
  assumes "\<forall>l \<in> set (pkgbuild_fields p v u s). single_line l"
  shows "text_lines (generate_pkgbuild p v u s) =
           map (\<lambda>l. l @ [nl]) (pkgbuild_fields p v u s)
           @ text_lines (unlines (pkgbuild_install (py_replace ''-bin'' [] (name p))
                                    (description p)))"
  using assms by (simp add: generate_pkgbuild_def text_lines_unlines_append)

section \<open>Reading the version back from a rendered recipe\<close>











section \<open>Reading the declared fields back\<close>

lemma takeWhile_value:
  "nl \<notin> set v \<Longrightarrow> takeWhile (\<lambda>c. c \<noteq> nl) (v @ r) = v @ takeWhile (\<lambda>c. c \<noteq> nl) r"
  by (induction v) auto

lemma first_field_pkgbuild:
  assumes "\<forall>l \<in> set (pkgbuild_fields p v u s). single_line l"
    and "first_field key (map (\<lambda>l. l @ [nl]) (pkgbuild_fields p v u s)) = Some x"
  shows "first_field key (text_lines (generate_pkgbuild p v u s)) = Some x"
  using assms(2) by (simp only: pkgbuild_lines [OF assms(1)] first_field_append) simp

lemma first_field_skip:
  "\<forall>l \<in> set xs. \<not> startswith l key \<Longrightarrow> first_field key (xs @ ys) = first_field key ys"
  by (induction xs) simp_all

lemma field_value_entry:
  "nl \<notin> set d \<Longrightarrow> field_value key (key @ d @ [nl]) = d"
  by (simp add: field_value_def takeWhile_value)

lemma all_fields_entries:
  assumes "\<forall>d \<in> set ds. single_line d"
  shows "map (\<lambda>d. field_value key (key @ d @ [nl])) ds = ds"
proof (rule map_idI)
  fix d assume "d \<in> set ds"
  with assms have "nl \<notin> set d" by (simp add: single_line_def)
  then show "field_value key (key @ d @ [nl]) = d" by (rule field_value_entry)
qed

lemma srcinfo_fields_single_line:
  assumes "single_line (name p)" "single_line v" "single_line (description p)"
    "single_line (url p)" "single_line (license p)"
    "\<forall>x \<in> set (depends p). single_line x" "\<forall>x \<in> set (conflicts p). single_line x"
    "\<forall>x \<in> set (provides p). single_line x" "single_line u" "single_line s"
  shows "\<forall>l \<in> set (srcinfo_fields p v u s). single_line l"
  using assms
  by (auto simp: srcinfo_fields_def single_line_simps tab_def nl_def cr_def)

lemma srcinfo_lines:
  assumes "\<forall>l \<in> set (srcinfo_fields p v u s). single_line l"
  shows "text_lines (generate_srcinfo p v u s) = map (\<lambda>l. l @ [nl]) (srcinfo_fields p v u s)"
  using assms by (simp add: generate_srcinfo_def text_lines_unlines)

lemma pkgbuild_pkgname:
  \<open>single_line (name p) \<Longrightarrow>
     first_field ''pkgname='' (map (\<lambda>l. l @ [nl]) (pkgbuild_fields p v u s)) =
       Some (name p)\<close>
  by (simp add: pkgbuild_fields_def field_value_def single_line_def
      takeWhile_value [unfolded nl_def] nl_def dq_def sq_def)

lemma pkgbuild_pkgver:
  \<open>single_line v \<Longrightarrow>
     first_field ''pkgver='' (map (\<lambda>l. l @ [nl]) (pkgbuild_fields p v u s)) =
       Some (v)\<close>
  by (simp add: pkgbuild_fields_def field_value_def single_line_def
      takeWhile_value [unfolded nl_def] nl_def dq_def sq_def)

lemma pkgbuild_pkgdesc:
  \<open>single_line (description p) \<Longrightarrow>
     first_field ''pkgdesc='' (map (\<lambda>l. l @ [nl]) (pkgbuild_fields p v u s)) =
       Some ([dq] @ description p @ [dq])\<close>
  by (simp add: pkgbuild_fields_def field_value_def single_line_def
      takeWhile_value [unfolded nl_def] nl_def dq_def sq_def)

lemma pkgbuild_url:
  \<open>single_line (url p) \<Longrightarrow>
     first_field ''url='' (map (\<lambda>l. l @ [nl]) (pkgbuild_fields p v u s)) =
       Some ([dq] @ url p @ [dq])\<close>
  by (simp add: pkgbuild_fields_def field_value_def single_line_def
      takeWhile_value [unfolded nl_def] nl_def dq_def sq_def)

lemma pkgbuild_license:
  \<open>single_line (license p) \<Longrightarrow>
     first_field ''license='' (map (\<lambda>l. l @ [nl]) (pkgbuild_fields p v u s)) =
       Some (''('' @ [sq] @ license p @ [sq] @ '')'')\<close>
  by (simp add: pkgbuild_fields_def field_value_def single_line_def
      takeWhile_value [unfolded nl_def] nl_def dq_def sq_def)

lemma pkgbuild_depends:
  \<open>single_line (quoted_list (depends p)) \<Longrightarrow>
     first_field ''depends='' (map (\<lambda>l. l @ [nl]) (pkgbuild_fields p v u s)) =
       Some (''('' @ quoted_list (depends p) @ '')'')\<close>
  by (simp add: pkgbuild_fields_def field_value_def single_line_def
      takeWhile_value [unfolded nl_def] nl_def dq_def sq_def)

lemma pkgbuild_conflicts:
  \<open>single_line (quoted_list (conflicts p)) \<Longrightarrow>
     first_field ''conflicts='' (map (\<lambda>l. l @ [nl]) (pkgbuild_fields p v u s)) =
       Some (''('' @ quoted_list (conflicts p) @ '')'')\<close>
  by (simp add: pkgbuild_fields_def field_value_def single_line_def
      takeWhile_value [unfolded nl_def] nl_def dq_def sq_def)

lemma pkgbuild_provides:
  \<open>single_line (quoted_list (provides p)) \<Longrightarrow>
     first_field ''provides='' (map (\<lambda>l. l @ [nl]) (pkgbuild_fields p v u s)) =
       Some (''('' @ quoted_list (provides p) @ '')'')\<close>
  by (simp add: pkgbuild_fields_def field_value_def single_line_def
      takeWhile_value [unfolded nl_def] nl_def dq_def sq_def)

lemma pkgbuild_source:
  \<open>single_line u \<Longrightarrow>
     first_field ''source='' (map (\<lambda>l. l @ [nl]) (pkgbuild_fields p v u s)) =
       Some (''("${pkgname}-${pkgver}.zip::'' @ u @ ''")'')\<close>
  by (simp add: pkgbuild_fields_def field_value_def single_line_def
      takeWhile_value [unfolded nl_def] nl_def dq_def sq_def)

lemma pkgbuild_sha256sums:
  \<open>single_line s \<Longrightarrow>
     first_field ''sha256sums='' (map (\<lambda>l. l @ [nl]) (pkgbuild_fields p v u s)) =
       Some (''('' @ [sq] @ s @ [sq] @ '')'')\<close>
  by (simp add: pkgbuild_fields_def field_value_def single_line_def
      takeWhile_value [unfolded nl_def] nl_def dq_def sq_def)

lemma srcinfo_pkgbase:
  "single_line (name p) \<Longrightarrow>
     first_field ''pkgbase = '' (map (\<lambda>l. l @ [nl]) (srcinfo_fields p v u s)) = Some (name p)"
  by (simp add: srcinfo_fields_def field_value_def single_line_def first_field_skip
      takeWhile_value [unfolded nl_def tab_def] nl_def tab_def)

lemma srcinfo_pkgdesc:
  "single_line (description p) \<Longrightarrow>
     first_field (tab # ''pkgdesc = '') (map (\<lambda>l. l @ [nl]) (srcinfo_fields p v u s)) = Some (description p)"
  by (simp add: srcinfo_fields_def field_value_def single_line_def first_field_skip
      takeWhile_value [unfolded nl_def tab_def] nl_def tab_def)

lemma srcinfo_pkgver:
  "single_line v \<Longrightarrow>
     first_field (tab # ''pkgver = '') (map (\<lambda>l. l @ [nl]) (srcinfo_fields p v u s)) = Some (v)"
  by (simp add: srcinfo_fields_def field_value_def single_line_def first_field_skip
      takeWhile_value [unfolded nl_def tab_def] nl_def tab_def)

lemma srcinfo_url:
  "single_line (url p) \<Longrightarrow>
     first_field (tab # ''url = '') (map (\<lambda>l. l @ [nl]) (srcinfo_fields p v u s)) = Some (url p)"
  by (simp add: srcinfo_fields_def field_value_def single_line_def first_field_skip
      takeWhile_value [unfolded nl_def tab_def] nl_def tab_def)

lemma srcinfo_license:
  "single_line (license p) \<Longrightarrow>
     first_field (tab # ''license = '') (map (\<lambda>l. l @ [nl]) (srcinfo_fields p v u s)) = Some (license p)"
  by (simp add: srcinfo_fields_def field_value_def single_line_def first_field_skip
      takeWhile_value [unfolded nl_def tab_def] nl_def tab_def)

lemma srcinfo_source:
  "single_line (name p) \<Longrightarrow> single_line v \<Longrightarrow> single_line u \<Longrightarrow>
     first_field (tab # ''source = '') (map (\<lambda>l. l @ [nl]) (srcinfo_fields p v u s)) = Some (name p @ ''-'' @ v @ ''.zip::'' @ u)"
  by (simp add: srcinfo_fields_def field_value_def single_line_def first_field_skip
      takeWhile_value [unfolded nl_def tab_def] nl_def tab_def)

lemma srcinfo_sha256sums:
  "single_line s \<Longrightarrow>
     first_field (tab # ''sha256sums = '') (map (\<lambda>l. l @ [nl]) (srcinfo_fields p v u s)) = Some (s)"
  by (simp add: srcinfo_fields_def field_value_def single_line_def first_field_skip
      takeWhile_value [unfolded nl_def tab_def] nl_def tab_def)

lemma srcinfo_pkgname:
  "single_line (name p) \<Longrightarrow>
     first_field ''pkgname = '' (map (\<lambda>l. l @ [nl]) (srcinfo_fields p v u s)) = Some (name p)"
  by (simp add: srcinfo_fields_def field_value_def single_line_def first_field_skip
      takeWhile_value [unfolded nl_def tab_def] nl_def tab_def)

lemma srcinfo_depends:
  assumes "\<forall>d \<in> set (depends p). single_line d"
  shows "all_fields (tab # ''depends = '') (map (\<lambda>l. l @ [nl]) (srcinfo_fields p v u s)) = depends p"
proof -
  have "map (\<lambda>d. field_value (tab # ''depends = '') ((tab # ''depends = '') @ d @ [nl])) (depends p) = depends p"
    using assms by (rule all_fields_entries)
  then show ?thesis
    by (simp add: all_fields_def srcinfo_fields_def o_def tab_def nl_def)
qed

lemma srcinfo_conflicts:
  assumes "\<forall>d \<in> set (conflicts p). single_line d"
  shows "all_fields (tab # ''conflicts = '') (map (\<lambda>l. l @ [nl]) (srcinfo_fields p v u s)) = conflicts p"
proof -
  have "map (\<lambda>d. field_value (tab # ''conflicts = '') ((tab # ''conflicts = '') @ d @ [nl])) (conflicts p) = conflicts p"
    using assms by (rule all_fields_entries)
  then show ?thesis
    by (simp add: all_fields_def srcinfo_fields_def o_def tab_def nl_def)
qed

lemma srcinfo_provides:
  assumes "\<forall>d \<in> set (provides p). single_line d"
  shows "all_fields (tab # ''provides = '') (map (\<lambda>l. l @ [nl]) (srcinfo_fields p v u s)) = provides p"
proof -
  have "map (\<lambda>d. field_value (tab # ''provides = '') ((tab # ''provides = '') @ d @ [nl])) (provides p) = provides p"
    using assms by (rule all_fields_entries)
  then show ?thesis
    by (simp add: all_fields_def srcinfo_fields_def o_def tab_def nl_def)
qed

lemma single_line_inputs_fields:
  assumes "single_line_inputs p v u s"
  shows "\<forall>l \<in> set (pkgbuild_fields p v u s). single_line l"
    and "\<forall>l \<in> set (srcinfo_fields p v u s). single_line l"
proof -
  from assms have a: "single_line (name p)" "single_line v" "single_line (description p)"
    "single_line (url p)" "single_line (license p)"
    "\<forall>x \<in> set (depends p). single_line x" "\<forall>x \<in> set (conflicts p). single_line x"
    "\<forall>x \<in> set (provides p). single_line x" "single_line u" "single_line s"
    by (simp_all add: single_line_inputs_def list_all_iff)
  show "\<forall>l \<in> set (pkgbuild_fields p v u s). single_line l"
    using a by (rule pkgbuild_fields_single_line)
  show "\<forall>l \<in> set (srcinfo_fields p v u s). single_line l"
    using a by (rule srcinfo_fields_single_line)
qed

lemma klit_inputs_single_line:
  "single_line_inputs klit_bin ''2.3.0'' ''https://example/sample-2.3.0.zip''
     ''e3b0c44298fc1c149afbf4c8996fb92427ae41e4649b934ca495991b7852b855''"
  by (simp add: single_line_inputs_def single_line_def klit_bin_def nl_def cr_def)

section \<open>Interpolation into the recipe\<close>






section \<open>The recipe and the source-info summary\<close>

lemma all_fields_srcinfo:
  assumes "\<forall>l \<in> set (srcinfo_fields p v u s). single_line l"
  shows "all_fields key (text_lines (generate_srcinfo p v u s)) =
           all_fields key (map (\<lambda>l. l @ [nl]) (srcinfo_fields p v u s))"
  by (simp only: srcinfo_lines [OF assms])

lemma first_field_srcinfo:
  assumes "\<forall>l \<in> set (srcinfo_fields p v u s). single_line l"
  shows "first_field key (text_lines (generate_srcinfo p v u s)) =
           first_field key (map (\<lambda>l. l @ [nl]) (srcinfo_fields p v u s))"
  by (simp only: srcinfo_lines [OF assms])

text \<open>
  Claim C6, as the code has it. For inputs without line breaks, reading the declared
  fields back from the two rendered files gives the same text for the name (\<open>pkgname\<close>
  in the recipe, \<open>pkgbase\<close> and \<open>pkgname\<close> in the summary), the version, the
  description, the URL, the license, every dependency, conflict and provides entry, and
  the digest; the recipe wraps them in its quotes and parentheses, the summary has them
  bare. The source entry is the exception: the download URL in it is the same, but the
  recipe names the file with the shell variables \<open>${pkgname}-${pkgver}\<close> where the
  summary has the name and the version themselves.
\<close>

theorem descriptors_agree:
  assumes "single_line_inputs p v u s"
  shows \<open>let P = text_lines (generate_pkgbuild p v u s);
             S = text_lines (generate_srcinfo p v u s)
         in first_field ''pkgname='' P = Some (name p) \<and>
            first_field ''pkgbase = '' S = Some (name p) \<and>
            first_field ''pkgname = '' S = Some (name p) \<and>
            first_field ''pkgver='' P = Some v \<and>
            first_field (tab # ''pkgver = '') S = Some v \<and>
            first_field ''pkgdesc='' P = Some ([dq] @ description p @ [dq]) \<and>
            first_field (tab # ''pkgdesc = '') S = Some (description p) \<and>
            first_field ''url='' P = Some ([dq] @ url p @ [dq]) \<and>
            first_field (tab # ''url = '') S = Some (url p) \<and>
            first_field ''license='' P = Some (''('' @ [sq] @ license p @ [sq] @ '')'') \<and>
            first_field (tab # ''license = '') S = Some (license p) \<and>
            first_field ''depends='' P = Some (''('' @ quoted_list (depends p) @ '')'') \<and>
            all_fields (tab # ''depends = '') S = depends p \<and>
            first_field ''conflicts='' P = Some (''('' @ quoted_list (conflicts p) @ '')'') \<and>
            all_fields (tab # ''conflicts = '') S = conflicts p \<and>
            first_field ''provides='' P = Some (''('' @ quoted_list (provides p) @ '')'') \<and>
            all_fields (tab # ''provides = '') S = provides p \<and>
            first_field ''source='' P = Some (''("${pkgname}-${pkgver}.zip::'' @ u @ ''")'') \<and>
            first_field (tab # ''source = '') S = Some (name p @ ''-'' @ v @ ''.zip::'' @ u) \<and>
            first_field ''sha256sums='' P = Some (''('' @ [sq] @ s @ [sq] @ '')'') \<and>
            first_field (tab # ''sha256sums = '') S = Some s\<close>
proof -
  note P = single_line_inputs_fields(1) [OF assms]
  note S = single_line_inputs_fields(2) [OF assms]
  from assms have a: "single_line (name p)" "single_line v" "single_line (description p)"
    "single_line (url p)" "single_line (license p)"
    "\<forall>x \<in> set (depends p). single_line x" "\<forall>x \<in> set (conflicts p). single_line x"
    "\<forall>x \<in> set (provides p). single_line x" "single_line u" "single_line s"
    by (simp_all add: single_line_inputs_def list_all_iff)
  note q = single_line_quoted_list [OF a(6)] single_line_quoted_list [OF a(7)]
    single_line_quoted_list [OF a(8)]
  have p1: "first_field ''pkgname='' (text_lines (generate_pkgbuild p v u s)) = Some (name p)"
    using P pkgbuild_pkgname [OF a(1)] by (rule first_field_pkgbuild)
  have p2: "first_field ''pkgver='' (text_lines (generate_pkgbuild p v u s)) = Some v"
    using P pkgbuild_pkgver [OF a(2)] by (rule first_field_pkgbuild)
  have p3: "first_field ''pkgdesc='' (text_lines (generate_pkgbuild p v u s)) =
              Some ([dq] @ description p @ [dq])"
    using P pkgbuild_pkgdesc [OF a(3)] by (rule first_field_pkgbuild)
  have p4: "first_field ''url='' (text_lines (generate_pkgbuild p v u s)) =
              Some ([dq] @ url p @ [dq])"
    using P pkgbuild_url [OF a(4)] by (rule first_field_pkgbuild)
  have p5: "first_field ''license='' (text_lines (generate_pkgbuild p v u s)) =
              Some (''('' @ [sq] @ license p @ [sq] @ '')'')"
    using P pkgbuild_license [OF a(5)] by (rule first_field_pkgbuild)
  have p6: "first_field ''depends='' (text_lines (generate_pkgbuild p v u s)) =
              Some (''('' @ quoted_list (depends p) @ '')'')"
    using P pkgbuild_depends [OF q(1)] by (rule first_field_pkgbuild)
  have p7: "first_field ''conflicts='' (text_lines (generate_pkgbuild p v u s)) =
              Some (''('' @ quoted_list (conflicts p) @ '')'')"
    using P pkgbuild_conflicts [OF q(2)] by (rule first_field_pkgbuild)
  have p8: "first_field ''provides='' (text_lines (generate_pkgbuild p v u s)) =
              Some (''('' @ quoted_list (provides p) @ '')'')"
    using P pkgbuild_provides [OF q(3)] by (rule first_field_pkgbuild)
  have p9: \<open>first_field ''source='' (text_lines (generate_pkgbuild p v u s)) =
              Some (''("${pkgname}-${pkgver}.zip::'' @ u @ ''")'')\<close>
    using P pkgbuild_source [OF a(9)] by (rule first_field_pkgbuild)
  have p10: "first_field ''sha256sums='' (text_lines (generate_pkgbuild p v u s)) =
              Some (''('' @ [sq] @ s @ [sq] @ '')'')"
    using P pkgbuild_sha256sums [OF a(10)] by (rule first_field_pkgbuild)
  have s1: "first_field ''pkgbase = '' (text_lines (generate_srcinfo p v u s)) = Some (name p)"
    by (simp only: first_field_srcinfo [OF S] srcinfo_pkgbase [OF a(1)])
  have s2: "first_field ''pkgname = '' (text_lines (generate_srcinfo p v u s)) = Some (name p)"
    by (simp only: first_field_srcinfo [OF S] srcinfo_pkgname [OF a(1)])
  have s3: "first_field (tab # ''pkgver = '') (text_lines (generate_srcinfo p v u s)) = Some v"
    by (simp only: first_field_srcinfo [OF S] srcinfo_pkgver [OF a(2)])
  have s4: "first_field (tab # ''pkgdesc = '') (text_lines (generate_srcinfo p v u s)) =
              Some (description p)"
    by (simp only: first_field_srcinfo [OF S] srcinfo_pkgdesc [OF a(3)])
  have s5: "first_field (tab # ''url = '') (text_lines (generate_srcinfo p v u s)) =
              Some (url p)"
    by (simp only: first_field_srcinfo [OF S] srcinfo_url [OF a(4)])
  have s6: "first_field (tab # ''license = '') (text_lines (generate_srcinfo p v u s)) =
              Some (license p)"
    by (simp only: first_field_srcinfo [OF S] srcinfo_license [OF a(5)])
  have s7: "all_fields (tab # ''depends = '') (text_lines (generate_srcinfo p v u s)) =
              depends p"
    by (simp only: all_fields_srcinfo [OF S] srcinfo_depends [OF a(6)])
  have s8: "all_fields (tab # ''conflicts = '') (text_lines (generate_srcinfo p v u s)) =
              conflicts p"
    by (simp only: all_fields_srcinfo [OF S] srcinfo_conflicts [OF a(7)])
  have s9: "all_fields (tab # ''provides = '') (text_lines (generate_srcinfo p v u s)) =
              provides p"
    by (simp only: all_fields_srcinfo [OF S] srcinfo_provides [OF a(8)])
  have s10: "first_field (tab # ''source = '') (text_lines (generate_srcinfo p v u s)) =
              Some (name p @ ''-'' @ v @ ''.zip::'' @ u)"
    by (simp only: first_field_srcinfo [OF S] srcinfo_source [OF a(1,2,9)])
  have s11: "first_field (tab # ''sha256sums = '') (text_lines (generate_srcinfo p v u s)) =
              Some s"
    by (simp only: first_field_srcinfo [OF S] srcinfo_sha256sums [OF a(10)])
  show ?thesis
    unfolding Let_def
    by (intro conjI p1 p2 p3 p4 p5 p6 p7 p8 p9 p10 s1 s2 s3 s4 s5 s6 s7 s8 s9 s10 s11)
qed

theorem descriptors_agree_witness:
  "single_line_inputs klit_bin ''2.3.0'' ''https://example/sample-2.3.0.zip''
     ''e3b0c44298fc1c149afbf4c8996fb92427ae41e4649b934ca495991b7852b855'' \<and>
   first_field ''pkgver='' (text_lines (generate_pkgbuild klit_bin ''2.3.0''
       ''https://example/sample-2.3.0.zip'' ''e3b0c44298fc1c149afbf4c8996fb92427ae41e4649b934ca495991b7852b855'')) = Some ''2.3.0'' \<and>
   first_field (tab # ''pkgver = '') (text_lines (generate_srcinfo klit_bin ''2.3.0''
       ''https://example/sample-2.3.0.zip'' ''e3b0c44298fc1c149afbf4c8996fb92427ae41e4649b934ca495991b7852b855'')) = Some ''2.3.0'' \<and>
   all_fields (tab # ''depends = '') (text_lines (generate_srcinfo klit_bin ''2.3.0''
       ''https://example/sample-2.3.0.zip'' ''e3b0c44298fc1c149afbf4c8996fb92427ae41e4649b934ca495991b7852b855'')) = [''gtk3'']"
proof -
  have d: "depends klit_bin = [''gtk3'']" by (simp add: klit_bin_def)
  from descriptors_agree [OF klit_inputs_single_line]
  have "first_field ''pkgver='' (text_lines (generate_pkgbuild klit_bin ''2.3.0''
       ''https://example/sample-2.3.0.zip'' ''e3b0c44298fc1c149afbf4c8996fb92427ae41e4649b934ca495991b7852b855'')) = Some ''2.3.0''"
    and "first_field (tab # ''pkgver = '') (text_lines (generate_srcinfo klit_bin ''2.3.0''
       ''https://example/sample-2.3.0.zip'' ''e3b0c44298fc1c149afbf4c8996fb92427ae41e4649b934ca495991b7852b855'')) = Some ''2.3.0''"
    and "all_fields (tab # ''depends = '') (text_lines (generate_srcinfo klit_bin ''2.3.0''
       ''https://example/sample-2.3.0.zip'' ''e3b0c44298fc1c149afbf4c8996fb92427ae41e4649b934ca495991b7852b855'')) = depends klit_bin"
    unfolding Let_def by blast+
  with klit_inputs_single_line d show ?thesis by simp
qed

text \<open>
  The source entries of the two files rendered for \<open>klit-bin\<close> 2.3.0 are different
  texts, also inside the quotes and parentheses of the recipe.
\<close>

theorem source_entries_differ:
  \<open>first_field ''source='' (text_lines (generate_pkgbuild klit_bin ''2.3.0''
       ''https://example/sample-2.3.0.zip'' ''e3b0c44298fc1c149afbf4c8996fb92427ae41e4649b934ca495991b7852b855'')) =
     Some ''("${pkgname}-${pkgver}.zip::https://example/sample-2.3.0.zip")'' \<and>
   first_field (tab # ''source = '') (text_lines (generate_srcinfo klit_bin ''2.3.0''
       ''https://example/sample-2.3.0.zip'' ''e3b0c44298fc1c149afbf4c8996fb92427ae41e4649b934ca495991b7852b855'')) =
     Some ''klit-bin-2.3.0.zip::https://example/sample-2.3.0.zip'' \<and>
   ''("'' @ ''klit-bin-2.3.0.zip::https://example/sample-2.3.0.zip'' @ ''")'' \<noteq>
     ''("${pkgname}-${pkgver}.zip::https://example/sample-2.3.0.zip")''\<close>
proof -
  note P = single_line_inputs_fields(1) [OF klit_inputs_single_line]
  note S = single_line_inputs_fields(2) [OF klit_inputs_single_line]
  have a: "single_line (name klit_bin)" "single_line ''2.3.0''"
    "single_line ''https://example/sample-2.3.0.zip''"
    using klit_inputs_single_line by (simp_all add: single_line_inputs_def)
  have n: "name klit_bin = ''klit-bin''" by (simp add: klit_bin_def)
  have \<open>first_field ''source='' (text_lines (generate_pkgbuild klit_bin ''2.3.0''
       ''https://example/sample-2.3.0.zip'' ''e3b0c44298fc1c149afbf4c8996fb92427ae41e4649b934ca495991b7852b855'')) =
     Some (''("${pkgname}-${pkgver}.zip::'' @ ''https://example/sample-2.3.0.zip'' @ ''")'')\<close>
    using P pkgbuild_source [OF a(3)] by (rule first_field_pkgbuild)
  moreover have "first_field (tab # ''source = '') (text_lines (generate_srcinfo klit_bin
       ''2.3.0'' ''https://example/sample-2.3.0.zip'' ''e3b0c44298fc1c149afbf4c8996fb92427ae41e4649b934ca495991b7852b855'')) =
     Some (name klit_bin @ ''-'' @ ''2.3.0'' @ ''.zip::'' @ ''https://example/sample-2.3.0.zip'')"
    by (simp only: first_field_srcinfo [OF S] srcinfo_source [OF a])
  ultimately show ?thesis by (simp add: n)
qed

section \<open>The version gate in the pipeline\<close>










































section \<open>The digest of the artifact is lowercase\<close>

lemma digit_char_in: "digit_char n \<in> set ''0123456789abcdef''"
proof -
  have "n mod 16 < length ''0123456789abcdef''" by simp
  then show ?thesis unfolding digit_char_def by (rule nth_mem)
qed

lemma hex32_digits: "set (hex32 w) \<subseteq> set ''0123456789abcdef''"
  using digit_char_in by (auto simp: hex32_def)

lemma hex_of_state_digits: "set (hex_of_state s) \<subseteq> set ''0123456789abcdef''"
  using hex32_digits by (cases s) auto

lemma hexdigest_digits: "set (hexdigest h) \<subseteq> set ''0123456789abcdef''"
  by (simp only: hexdigest_def hex_of_state_digits)

lemma empty_digest:
  "hexdigest [] = ''e3b0c44298fc1c149afbf4c8996fb92427ae41e4649b934ca495991b7852b855''"
  by code_simp

text \<open>
  Claim C4, as the code has it. When the download succeeds, \<open>calculate_sha256\<close>
  returns the SHA-256 digest of the downloaded bytes (the chunks of 8192 bytes fed one
  after the other give the digest of the whole body) as \<open>hexdigest\<close> prints it: 64
  characters, each one of \<open>0123456789abcdef\<close>, so lowercase; nothing uppercases it.
  When the download raises, the result is \<open>None\<close>.
\<close>

theorem digest_is_lowercase_hex:
  "(artifact_get w u = Some body \<longrightarrow>
      snd (calculate_sha256 w u) = Some (hex_of_state (sha256_digest body)) \<and>
      length (hex_of_state (sha256_digest body)) = 64 \<and>
      set (hex_of_state (sha256_digest body)) \<subseteq> set ''0123456789abcdef'') \<and>
   (artifact_get w u = None \<longrightarrow> snd (calculate_sha256 w u) = None)"
  using hex_of_state_digits [of "sha256_digest body"]
  by (simp add: calculate_sha256_eq hexdigest_def length_hex_of_state)

theorem digest_is_lowercase_hex_witness:
  "artifact_get klit_only_world (JStr ''https://example/sample-2.3.0.zip'') = Some [] \<and>
   snd (calculate_sha256 klit_only_world (JStr ''https://example/sample-2.3.0.zip'')) =
     Some (hex_of_state (sha256_digest [])) \<and>
   length (hex_of_state (sha256_digest [])) = 64"
proof -
  have h: "artifact_get klit_only_world (JStr ''https://example/sample-2.3.0.zip'') = Some []"
    by (simp add: klit_only_world_def)
  with digest_is_lowercase_hex
         [of klit_only_world "JStr ''https://example/sample-2.3.0.zip''" "[]"]
  show ?thesis by blast
qed

text \<open>
  The digest of the empty artifact has lowercase letters in it: it is not the
  uppercased digest.
\<close>

theorem digest_is_not_uppercased:
  "snd (calculate_sha256 klit_only_world (JStr ''https://example/sample-2.3.0.zip'')) =
     Some ''e3b0c44298fc1c149afbf4c8996fb92427ae41e4649b934ca495991b7852b855'' \<and>
   ''e3b0c44298fc1c149afbf4c8996fb92427ae41e4649b934ca495991b7852b855'' \<noteq>
     map ascii_upper ''e3b0c44298fc1c149afbf4c8996fb92427ae41e4649b934ca495991b7852b855''"
proof -
  have "snd (calculate_sha256 klit_only_world (JStr ''https://example/sample-2.3.0.zip'')) =
          Some (hexdigest [])"
    by (simp add: calculate_sha256_eq klit_only_world_def)
  moreover have "''e3b0c44298fc1c149afbf4c8996fb92427ae41e4649b934ca495991b7852b855'' \<noteq>
     map ascii_upper ''e3b0c44298fc1c149afbf4c8996fb92427ae41e4649b934ca495991b7852b855''"
    by code_simp
  ultimately show ?thesis
    by (simp only: empty_digest) simp
qed

end
